theory Spec2Isabelle
  imports Complex_Main "HOL-Library.Word"
begin

section \<open>JavaScript values used by backend/routes/assistantRoutes.js\<close>

text \<open>
  A JavaScript string is a sequence of UTF-16 code units. Literals of the source are
  written \<open>js ''...''\<close>. Numbers are the finite numbers a JSON body or the exit code of
  a process can carry; \<open>NaN\<close> and the infinities cannot occur in either.
\<close>

type_synonym jsstring = "16 word list"

definition js :: "string \<Rightarrow> jsstring" where
  "js s = map of_char s"

datatype jsval =
    JUndefined
  | JNull
  | JBool bool
  | JNum rat
  | JStr jsstring
  | JArr "jsval list"
  | JObj "(jsstring \<times> jsval) list"

text \<open>\<open>!v\<close> is \<open>\<not> truthy v\<close>.\<close>

fun truthy :: "jsval \<Rightarrow> bool" where
  "truthy JUndefined = False"
| "truthy JNull = False"
| "truthy (JBool b) = b"
| "truthy (JNum n) = (n \<noteq> 0)"
| "truthy (JStr s) = (s \<noteq> [])"
| "truthy (JArr xs) = True"
| "truthy (JObj fs) = True"

fun typeof :: "jsval \<Rightarrow> jsstring" where
  "typeof JUndefined = js ''undefined''"
| "typeof JNull = js ''object''"
| "typeof (JBool b) = js ''boolean''"
| "typeof (JNum n) = js ''number''"
| "typeof (JStr s) = js ''string''"
| "typeof (JArr xs) = js ''object''"
| "typeof (JObj fs) = js ''object''"

text \<open>
  \<open>String.prototype.trim\<close> removes the code units of WhiteSpace and LineTerminator
  from both ends: TAB, LF, VT, FF, CR, SP, NBSP, the space separators U+1680,
  U+2000 to U+200A, U+202F, U+205F, U+3000, the separators U+2028 and U+2029, and
  U+FEFF.
\<close>

definition is_whitespace :: "16 word \<Rightarrow> bool" where
  "is_whitespace c = (c \<in> set [0x0009, 0x000A, 0x000B, 0x000C, 0x000D, 0x0020, 0x00A0,
     0x1680, 0x2000, 0x2001, 0x2002, 0x2003, 0x2004, 0x2005, 0x2006, 0x2007, 0x2008,
     0x2009, 0x200A, 0x2028, 0x2029, 0x202F, 0x205F, 0x3000, 0xFEFF])"

definition trim :: "jsstring \<Rightarrow> jsstring" where
  "trim s = rev (dropWhile is_whitespace (rev (dropWhile is_whitespace s)))"

text \<open>\<open>v ?? d\<close>: the default replaces \<open>null\<close> and \<open>undefined\<close> only.\<close>

definition nullish_coalesce :: "jsval \<Rightarrow> jsval \<Rightarrow> jsval" where
  "nullish_coalesce v d = (if v = JUndefined \<or> v = JNull then d else v)"

section \<open>The runtime the module is loaded in\<close>

text \<open>
  What the module takes from Node and the platform, none of it defined in the source:
  the platform (it fixes \<open>path.sep\<close>), \<open>__dirname\<close>, \<open>path.join\<close>, \<open>path.resolve\<close>,
  \<open>fs.existsSync\<close> as it answers while the module is loaded, \<open>String.prototype.toLowerCase\<close>,
  and the message of the TypeError raised when a property is destructured from
  \<open>undefined\<close> or \<open>null\<close>.
\<close>

datatype platform = Posix | Win32

fun path_sep :: "platform \<Rightarrow> 16 word" where
  "path_sep Posix = 0x2F"
| "path_sep Win32 = 0x5C"

record runtime =
  platform :: platform
  dirname :: jsstring
  path_join :: "jsstring list \<Rightarrow> jsstring"
  path_resolve :: "jsstring \<Rightarrow> jsstring"
  existsSync :: "jsstring \<Rightarrow> bool"
  toLowerCase :: "jsstring \<Rightarrow> jsstring"
  destructure_message :: "jsval \<Rightarrow> jsstring"

section \<open>getPythonPath\<close>

definition possiblePaths :: "runtime \<Rightarrow> jsstring list" where
  "possiblePaths rt =
     [path_join rt [dirname rt, js ''..'', js ''.venv'', js ''Scripts'', js ''python.exe''],
      path_join rt [dirname rt, js ''..'', js ''venv'', js ''Scripts'', js ''python.exe''],
      path_join rt [dirname rt, js ''..'', js ''.venv'', js ''bin'', js ''python''],
      path_join rt [dirname rt, js ''..'', js ''venv'', js ''bin'', js ''python''],
      js ''python.exe'',
      js ''python3'',
      js ''python'']"

text \<open>
  \<open>pythonPath.includes(path.sep)\<close>: \<open>path.sep\<close> is one code unit long, so the substring
  test is a membership test.
\<close>

definition includes_sep :: "runtime \<Rightarrow> jsstring \<Rightarrow> bool" where
  "includes_sep rt p = (path_sep (platform rt) \<in> set p)"

definition usable :: "runtime \<Rightarrow> jsstring \<Rightarrow> bool" where
  "usable rt p = (existsSync rt p \<or> \<not> includes_sep rt p)"

text \<open>The \<open>for ... of\<close> loop; \<open>None\<close> when it ends without returning.\<close>

fun first_usable :: "runtime \<Rightarrow> jsstring list \<Rightarrow> jsstring option" where
  "first_usable rt [] = None"
| "first_usable rt (p # ps) = (if usable rt p then Some p else first_usable rt ps)"

definition getPythonPath :: "runtime \<Rightarrow> jsstring" where
  "getPythonPath rt =
     (case first_usable rt (possiblePaths rt) of
        Some p \<Rightarrow> p
      | None \<Rightarrow> js ''python'')"

definition pythonPath :: "runtime \<Rightarrow> jsstring" where
  "pythonPath rt = getPythonPath rt"

definition scriptPath :: "runtime \<Rightarrow> jsstring" where
  "scriptPath rt = path_join rt [dirname rt, js ''..'', js ''assistant.py'']"

section \<open>fetchInventoryFromDB\<close>

text \<open>
  An Ingredient document as this file reads it. The schema is models/Ingredient.js,
  outside this file; the name is a string and the stock any value, absent when
  \<open>JUndefined\<close>.
\<close>

record ingredient =
  name :: jsstring
  currentStock :: jsval

text \<open>\<open>await Ingredient.find({})\<close> either rejects with an error or gives the documents.\<close>

datatype db_result = DbRejects jsstring | DbRows "ingredient list"

type_synonym inventory = "jsstring \<rightharpoonup> jsval"

text \<open>
  \<open>inventory[key] = value\<close> on an object created by \<open>{}\<close>. The map holds the object's own
  properties. The key \<open>__proto__\<close> is the accessor inherited from \<open>Object.prototype\<close>:
  assigning to it never creates an own property.
\<close>

definition obj_set :: "inventory \<Rightarrow> jsstring \<Rightarrow> jsval \<Rightarrow> inventory" where
  "obj_set obj k v = (if k = js ''__proto__'' then obj else obj(k \<mapsto> v))"

fun forEach_item :: "runtime \<Rightarrow> inventory \<Rightarrow> ingredient list \<Rightarrow> inventory" where
  "forEach_item rt obj [] = obj"
| "forEach_item rt obj (item # items) =
     forEach_item rt
       (obj_set obj (toLowerCase rt (name item)) (nullish_coalesce (currentStock item) (JNum 0)))
       items"

definition fetchInventoryFromDB :: "runtime \<Rightarrow> db_result \<Rightarrow> jsstring + inventory" where
  "fetchInventoryFromDB rt db =
     (case db of
        DbRejects e \<Rightarrow> Inl e
      | DbRows ingredients \<Rightarrow> Inr (forEach_item rt Map.empty ingredients))"

section \<open>Requests, responses and effects\<close>

record upload =
  path :: jsstring

record request =
  body :: jsval
  req_file :: "upload option"

record response =
  status :: nat
  json :: jsval

text \<open>
  What a handler does to the outside, in the order it does it: the database query, a
  child process that \<open>spawn\<close> returned, a line of \<open>console.error\<close>, a call of
  \<open>fs.unlink\<close>, a response written to the client.
\<close>

datatype effect =
    DbFind
  | Spawn jsstring "jsval list"
  | ConsoleError jsstring jsstring
  | Unlink jsstring
  | Send response

text \<open>\<open>spawn\<close> either throws at once (an argument it refuses) or returns the child.\<close>

datatype spawn_result = SpawnThrows jsstring | SpawnReturns

datatype proc_event =
    StdoutData jsstring
  | StderrData jsstring
  | ProcError jsstring
  | ProcClose "int option"

text \<open>
  The events of the audio route: those of the child, and the callback of \<open>fs.unlink\<close>
  with its error, if any.
\<close>

datatype audio_ev = Proc proc_event | UnlinkDone "jsstring option"

record handler_state =
  data :: jsstring
  errorOutput :: jsstring
  trace :: "effect list"
  uncaught :: "jsstring option"
  pending_unlinks :: nat

definition init_state :: handler_state where
  "init_state = \<lparr>data = [], errorOutput = [], trace = [], uncaught = None, pending_unlinks = 0\<rparr>"

fun is_Send :: "effect \<Rightarrow> bool" where
  "is_Send (Send r) = True"
| "is_Send e = False"

definition headersSent :: "handler_state \<Rightarrow> bool" where
  "headersSent s = list_ex is_Send (trace s)"

definition console_error :: "jsstring \<Rightarrow> jsstring \<Rightarrow> handler_state \<Rightarrow> handler_state" where
  "console_error label detail s = s\<lparr>trace := trace s @ [ConsoleError label detail]\<rparr>"

text \<open>
  \<open>res.status(st).json(b)\<close>. Express writes the response once; on a response already
  written, setting the headers throws ERR_HTTP_HEADERS_SENT and nothing is written.
  Inside a listener nothing catches that exception.
\<close>

definition res_json :: "nat \<Rightarrow> jsval \<Rightarrow> handler_state \<Rightarrow> handler_state" where
  "res_json st b s =
     (if headersSent s then s\<lparr>uncaught := Some (js ''ERR_HTTP_HEADERS_SENT'')\<rparr>
      else s\<lparr>trace := trace s @ [Send \<lparr>status = st, json = b\<rparr>]\<rparr>)"

fun code_val :: "int option \<Rightarrow> jsval" where
  "code_val None = JNull"
| "code_val (Some c) = JNum (of_int c)"

section \<open>POST /ask\<close>

text \<open>
  \<open>const { text } = req.body\<close>: a TypeError when the body is \<open>undefined\<close> or \<open>null\<close>,
  the property otherwise (\<open>undefined\<close> when there is none).
\<close>

fun get_text :: "runtime \<Rightarrow> jsval \<Rightarrow> jsstring + jsval" where
  "get_text rt JUndefined = Inl (destructure_message rt JUndefined)"
| "get_text rt JNull = Inl (destructure_message rt JNull)"
| "get_text rt (JObj fs) =
     Inr (case map_of fs (js ''text'') of None \<Rightarrow> JUndefined | Some v \<Rightarrow> v)"
| "get_text rt b = Inr JUndefined"

text \<open>
  \<open>!text || typeof text !== "string" || text.trim().length === 0\<close>. The third test runs
  on strings only: on any other value the second one has already answered.
\<close>

fun no_text :: "jsval \<Rightarrow> bool" where
  "no_text (JStr s) =
     (\<not> truthy (JStr s) \<or> typeof (JStr s) \<noteq> js ''string'' \<or> length (trim s) = 0)"
| "no_text v = (\<not> truthy v \<or> typeof v \<noteq> js ''string'')"

definition ask_catch :: "jsstring \<Rightarrow> handler_state \<Rightarrow> handler_state" where
  "ask_catch msg s =
     res_json 500 (JObj [(js ''error'', JStr (js ''Assistant failed'')), (js ''details'', JStr msg)])
       (console_error (js ''Assistant error:'') msg s)"

text \<open>
  The body of the route up to the registration of the listeners. The second component
  says whether a child was spawned and the listeners registered.
\<close>

definition ask_handler ::
  "runtime \<Rightarrow> request \<Rightarrow> db_result \<Rightarrow> spawn_result \<Rightarrow> handler_state \<times> bool" where
  "ask_handler rt req db sp =
     (case get_text rt (body req) of
        Inl msg \<Rightarrow> (ask_catch msg init_state, False)
      | Inr text \<Rightarrow>
          if no_text text then
            (res_json 400 (JObj [(js ''error'', JStr (js ''No text provided''))]) init_state, False)
          else
            let s1 = init_state\<lparr>trace := [DbFind]\<rparr> in
            (case fetchInventoryFromDB rt db of
               Inl msg \<Rightarrow> (ask_catch msg s1, False)
             | Inr inventory \<Rightarrow>
                 (case sp of
                    SpawnThrows msg \<Rightarrow> (ask_catch msg s1, False)
                  | SpawnReturns \<Rightarrow>
                      (s1\<lparr>trace := trace s1 @ [Spawn (pythonPath rt) [JStr (scriptPath rt), text]]\<rparr>,
                       True))))"

fun ask_event :: "proc_event \<Rightarrow> handler_state \<Rightarrow> handler_state" where
  "ask_event (StdoutData chunk) s = s\<lparr>data := data s @ chunk\<rparr>"
| "ask_event (StderrData err) s =
     console_error (js ''Python stderr:'') err (s\<lparr>errorOutput := errorOutput s @ err\<rparr>)"
| "ask_event (ProcError msg) s =
     res_json 500
       (JObj [(js ''error'', JStr (js ''Failed to start Python process'')),
              (js ''details'', JStr msg)])
       (console_error (js ''Failed to start Python process:'') msg s)"
| "ask_event (ProcClose code) s =
     (if code \<noteq> Some 0 \<or> errorOutput s \<noteq> [] then
        res_json 500
          (JObj [(js ''error'', JStr (js ''Python process failed'')),
                 (js ''code'', code_val code),
                 (js ''stderr'', JStr (trim (errorOutput s)))])
          (console_error (js ''Python process error output:'') (errorOutput s) s)
      else res_json 200 (JObj [(js ''reply'', JStr (trim (data s)))]) s)"

text \<open>
  The listeners run on the events in the order they arrive. An exception that leaves a
  listener is uncaught: the process ends and no later listener runs.
\<close>

fun deliver :: "('e \<Rightarrow> handler_state \<Rightarrow> handler_state) \<Rightarrow> 'e list \<Rightarrow> handler_state \<Rightarrow> handler_state" where
  "deliver h [] s = s"
| "deliver h (e # es) s = (if uncaught s \<noteq> None then s else deliver h es (h e s))"

definition ask_request ::
  "runtime \<Rightarrow> request \<Rightarrow> db_result \<Rightarrow> spawn_result \<Rightarrow> proc_event list \<Rightarrow> handler_state" where
  "ask_request rt req db sp evs =
     (let (s, listening) = ask_handler rt req db sp
      in if listening then deliver ask_event evs s else s)"

section \<open>POST /audio\<close>

definition audio_catch :: "jsstring \<Rightarrow> handler_state \<Rightarrow> handler_state" where
  "audio_catch msg s =
     res_json 500
       (JObj [(js ''error'', JStr (js ''Assistant audio processing failed'')),
              (js ''details'', JStr msg)])
       (console_error (js ''Audio assistant error:'') msg s)"

text \<open>
  The body of the route. The second component is \<open>filePath\<close> when a child was spawned and
  the listeners, which close over it, were registered.
\<close>

definition audio_handler ::
  "runtime \<Rightarrow> request \<Rightarrow> spawn_result \<Rightarrow> handler_state \<times> jsstring option" where
  "audio_handler rt req sp =
     (case req_file req of
        None \<Rightarrow>
          (res_json 400 (JObj [(js ''error'', JStr (js ''No audio file uploaded''))]) init_state,
           None)
      | Some f \<Rightarrow>
          let filePath = path_resolve rt (path f) in
          (case sp of
             SpawnThrows msg \<Rightarrow> (audio_catch msg init_state, None)
           | SpawnReturns \<Rightarrow>
               (init_state\<lparr>trace :=
                  [Spawn (pythonPath rt) [JStr (scriptPath rt), JStr (js ''--audio''), JStr filePath]]\<rparr>,
                Some filePath)))"

text \<open>
  The close listener calls \<open>fs.unlink\<close> first; its callback runs later, as an event of its
  own, and only logs.
\<close>

fun audio_event :: "jsstring \<Rightarrow> audio_ev \<Rightarrow> handler_state \<Rightarrow> handler_state" where
  "audio_event filePath (Proc (StdoutData chunk)) s = s\<lparr>data := data s @ chunk\<rparr>"
| "audio_event filePath (Proc (StderrData err)) s =
     console_error (js ''Python stderr:'') err (s\<lparr>errorOutput := errorOutput s @ err\<rparr>)"
| "audio_event filePath (Proc (ProcClose code)) s =
     (let s1 = s\<lparr>trace := trace s @ [Unlink filePath],
                 pending_unlinks := Suc (pending_unlinks s)\<rparr>
      in if code \<noteq> Some 0 \<or> errorOutput s1 \<noteq> [] then
           res_json 500
             (JObj [(js ''error'', JStr (js ''Python audio process failed'')),
                    (js ''code'', code_val code),
                    (js ''stderr'', JStr (trim (errorOutput s1)))])
             (console_error (js ''Python audio process error output:'') (errorOutput s1) s1)
         else res_json 200 (JObj [(js ''response'', JStr (trim (data s1)))]) s1)"
| "audio_event filePath (Proc (ProcError msg)) s =
     res_json 500
       (JObj [(js ''error'', JStr (js ''Failed to start Python audio process'')),
              (js ''details'', JStr msg)])
       (console_error (js ''Failed to start Python audio process:'') msg s)"
| "audio_event filePath (UnlinkDone err) s =
     (if pending_unlinks s = 0 then s
      else
        let s1 = s\<lparr>pending_unlinks := pending_unlinks s - 1\<rparr> in
        (case err of
           None \<Rightarrow> s1
         | Some msg \<Rightarrow> console_error (js ''Failed to delete temp audio file:'') msg s1))"

definition audio_request ::
  "runtime \<Rightarrow> request \<Rightarrow> spawn_result \<Rightarrow> audio_ev list \<Rightarrow> handler_state" where
  "audio_request rt req sp evs =
     (case audio_handler rt req sp of
        (s, Some filePath) \<Rightarrow> deliver (audio_event filePath) evs s
      | (s, None) \<Rightarrow> s)"

section \<open>Reading a run\<close>

fun sent :: "effect \<Rightarrow> response list" where
  "sent (Send r) = [r]"
| "sent e = []"

definition responses :: "handler_state \<Rightarrow> response list" where
  "responses s = concat (map sent (trace s))"

fun spawned :: "effect \<Rightarrow> (jsstring \<times> jsval list) list" where
  "spawned (Spawn cmd args) = [(cmd, args)]"
| "spawned e = []"

definition spawns :: "handler_state \<Rightarrow> (jsstring \<times> jsval list) list" where
  "spawns s = concat (map spawned (trace s))"

fun unlinked :: "effect \<Rightarrow> jsstring list" where
  "unlinked (Unlink p) = [p]"
| "unlinked e = []"

definition unlinks :: "handler_state \<Rightarrow> jsstring list" where
  "unlinks s = concat (map unlinked (trace s))"

fun is_data :: "proc_event \<Rightarrow> bool" where
  "is_data (StdoutData c) = True"
| "is_data (StderrData c) = True"
| "is_data e = False"

fun stdout_chunk :: "proc_event \<Rightarrow> jsstring" where
  "stdout_chunk (StdoutData c) = c"
| "stdout_chunk e = []"

fun stderr_chunk :: "proc_event \<Rightarrow> jsstring" where
  "stderr_chunk (StderrData c) = c"
| "stderr_chunk e = []"

definition stdout_of :: "proc_event list \<Rightarrow> jsstring" where
  "stdout_of evs = concat (map stdout_chunk evs)"

definition stderr_of :: "proc_event list \<Rightarrow> jsstring" where
  "stderr_of evs = concat (map stderr_chunk evs)"

fun is_close :: "audio_ev \<Rightarrow> bool" where
  "is_close (Proc (ProcClose code)) = True"
| "is_close e = False"



section \<open>A concrete runtime\<close>

text \<open>
  A POSIX runtime with no virtual environment on disk, to instantiate the theorems:
  paths are joined with \<open>/\<close>, and letters are lower-cased in the ASCII range, where
  \<open>toLowerCase\<close> adds 32 to the code units of A to Z.
\<close>

fun join_slash :: "jsstring list \<Rightarrow> jsstring" where
  "join_slash [] = []"
| "join_slash [p] = p"
| "join_slash (p # ps) = p @ js ''/'' @ join_slash ps"

definition ascii_lower :: "16 word \<Rightarrow> 16 word" where
  "ascii_lower c = (if 0x41 \<le> c \<and> c \<le> 0x5A then c + 0x20 else c)"

definition example_runtime :: runtime where
  "example_runtime =
     \<lparr>platform = Posix,
      dirname = js ''/srv/backend/routes'',
      path_join = join_slash,
      path_resolve = (\<lambda>p. js ''/srv/backend/'' @ p),
      existsSync = (\<lambda>p. False),
      toLowerCase = map ascii_lower,
      destructure_message = (\<lambda>v. js ''Cannot destructure property'')\<rparr>"

definition example_ask :: request where
  "example_ask = \<lparr>body = JObj [(js ''text'', JStr (js ''is there flour left''))], req_file = None\<rparr>"

definition example_audio :: request where
  "example_audio = \<lparr>body = JUndefined, req_file = Some \<lparr>path = js ''uploads/3f9a''\<rparr>\<rparr>"

section \<open>Interpreter path resolution\<close>

lemma first_usable_find: "first_usable rt ps = List.find (usable rt) ps"
  by (induction ps) simp_all

lemma bare_python_exe_usable: "usable rt (js ''python.exe'')"
  by (cases "platform rt") (simp_all add: usable_def includes_sep_def js_def)

text \<open>
  C7. getPythonPath returns the first candidate of the ordered list that exists on disk or
  has no path separator in it, and the loop always returns: the fallback after it is
  never reached.
\<close>

theorem getPythonPath_first_usable:
  "first_usable rt (possiblePaths rt) \<noteq> None \<and>
   List.find (\<lambda>p. existsSync rt p \<or> path_sep (platform rt) \<notin> set p) (possiblePaths rt)
     = Some (getPythonPath rt)"
proof -
  have u: "usable rt = (\<lambda>p. existsSync rt p \<or> path_sep (platform rt) \<notin> set p)"
    by (rule ext) (simp add: usable_def includes_sep_def)
  have "first_usable rt (possiblePaths rt) \<noteq> None"
    using bare_python_exe_usable [of rt] by (simp add: possiblePaths_def)
  then obtain p where p: "first_usable rt (possiblePaths rt) = Some p"
    by blast
  then have "getPythonPath rt = p"
    by (simp add: getPythonPath_def)
  with p show ?thesis
    by (simp add: first_usable_find u)
qed

theorem getPythonPath_first_usable_witness:
  "getPythonPath example_runtime = js ''python.exe''"
proof -
  have "List.find (\<lambda>p. existsSync example_runtime p \<or> path_sep (platform example_runtime) \<notin> set p)
          (possiblePaths example_runtime) = Some (getPythonPath example_runtime)"
    using getPythonPath_first_usable [of example_runtime] by blast
  then show ?thesis
    by (simp add: possiblePaths_def example_runtime_def js_def)
qed

section \<open>Helper facts about responses and listeners\<close>

lemma no_text_JStr: "no_text (JStr s) = (trim s = [])"
  by (auto simp: trim_def js_def)

lemma no_text_not_string: "typeof v \<noteq> js ''string'' \<Longrightarrow> no_text v"
  by (cases v) simp_all

lemma is_Send_sent: "is_Send e = (sent e \<noteq> [])"
  by (cases e) simp_all

lemma headersSent_responses: "headersSent s = (responses s \<noteq> [])"
  by (simp add: headersSent_def responses_def list_ex_iff is_Send_sent)

lemma responses_fields:
  "responses (s\<lparr>data := d\<rparr>) = responses s"
  "responses (s\<lparr>errorOutput := x\<rparr>) = responses s"
  "responses (s\<lparr>pending_unlinks := n\<rparr>) = responses s"
  "responses (s\<lparr>uncaught := u\<rparr>) = responses s"
  "responses (s\<lparr>trace := trace s @ es\<rparr>) = responses s @ concat (map sent es)"
  by (simp_all add: responses_def)

lemma unlinks_fields:
  "unlinks (s\<lparr>data := d\<rparr>) = unlinks s"
  "unlinks (s\<lparr>errorOutput := x\<rparr>) = unlinks s"
  "unlinks (s\<lparr>pending_unlinks := n\<rparr>) = unlinks s"
  "unlinks (s\<lparr>uncaught := u\<rparr>) = unlinks s"
  "unlinks (s\<lparr>trace := trace s @ es\<rparr>) = unlinks s @ concat (map unlinked es)"
  by (simp_all add: unlinks_def)

lemma responses_res_json:
  "responses (res_json st b s) =
     (if responses s = [] then [\<lparr>status = st, json = b\<rparr>] else responses s)"
  by (simp add: res_json_def headersSent_responses) (simp add: responses_def)

lemma uncaught_res_json:
  "uncaught (res_json st b s) =
     (if responses s = [] then uncaught s else Some (js ''ERR_HTTP_HEADERS_SENT''))"
  by (simp add: res_json_def headersSent_responses)

lemma unlinks_res_json: "unlinks (res_json st b s) = unlinks s"
  by (simp add: res_json_def unlinks_def)

lemma fields_res_json:
  "data (res_json st b s) = data s"
  "errorOutput (res_json st b s) = errorOutput s"
  "pending_unlinks (res_json st b s) = pending_unlinks s"
  by (simp_all add: res_json_def)

lemma responses_console_error: "responses (console_error l d s) = responses s"
  by (simp add: console_error_def responses_def)

lemma unlinks_console_error: "unlinks (console_error l d s) = unlinks s"
  by (simp add: console_error_def unlinks_def)

lemma fields_console_error:
  "data (console_error l d s) = data s"
  "errorOutput (console_error l d s) = errorOutput s"
  "pending_unlinks (console_error l d s) = pending_unlinks s"
  "uncaught (console_error l d s) = uncaught s"
  by (simp_all add: console_error_def)

lemmas step_simps =
  fields_res_json fields_console_error responses_res_json responses_console_error
  uncaught_res_json unlinks_res_json unlinks_console_error responses_fields unlinks_fields

lemma deliver_uncaught: "uncaught s \<noteq> None \<Longrightarrow> deliver h evs s = s"
  by (cases evs) simp_all

lemma deliver_append: "deliver h (xs @ ys) s = deliver h ys (deliver h xs s)"
  by (induction xs arbitrary: s) (simp_all add: deliver_uncaught)

subsection \<open>Runs of data events followed by close\<close>

lemma ask_data_step:
  assumes "is_data e"
  shows "data (ask_event e s) = data s @ stdout_chunk e"
    and "errorOutput (ask_event e s) = errorOutput s @ stderr_chunk e"
    and "responses (ask_event e s) = responses s"
    and "uncaught (ask_event e s) = uncaught s"
  using assms by (cases e; simp add: step_simps)+

lemma ask_data_run:
  assumes "\<forall>e\<in>set evs. is_data e" and "uncaught s = None"
  shows "data (deliver ask_event evs s) = data s @ stdout_of evs
       \<and> errorOutput (deliver ask_event evs s) = errorOutput s @ stderr_of evs
       \<and> responses (deliver ask_event evs s) = responses s
       \<and> uncaught (deliver ask_event evs s) = None"
  using assms
proof (induction evs arbitrary: s)
  case Nil
  then show ?case by (simp add: stdout_of_def stderr_of_def)
next
  case (Cons e evs)
  then have d: "is_data e" and rest: "\<forall>x\<in>set evs. is_data x" by simp_all
  have u: "uncaught (ask_event e s) = None"
    using Cons.prems(2) ask_data_step(4) [OF d] by simp
  show ?case
    using Cons.IH [OF rest u] Cons.prems(2) ask_data_step [OF d, of s]
    by (simp add: stdout_of_def stderr_of_def)
qed

lemma ask_handler_spawned:
  assumes "get_text rt (body req) = Inr text" and "\<not> no_text text"
  shows "ask_handler rt req (DbRows rows) SpawnReturns =
           (init_state\<lparr>trace := [DbFind, Spawn (pythonPath rt) [JStr (scriptPath rt), text]]\<rparr>, True)"
  using assms by (simp add: ask_handler_def fetchInventoryFromDB_def)

lemma ask_close_response:
  assumes "get_text rt (body req) = Inr text" and "\<not> no_text text"
    and "\<forall>e\<in>set evs. is_data e"
  shows "responses (ask_request rt req (DbRows rows) SpawnReturns (evs @ [ProcClose code])) =
     [if code = Some 0 \<and> stderr_of evs = []
      then \<lparr>status = 200, json = JObj [(js ''reply'', JStr (trim (stdout_of evs)))]\<rparr>
      else \<lparr>status = 500,
            json = JObj [(js ''error'', JStr (js ''Python process failed'')),
                         (js ''code'', code_val code),
                         (js ''stderr'', JStr (trim (stderr_of evs)))]\<rparr>]"
proof -
  let ?s0 = "init_state\<lparr>trace := [DbFind, Spawn (pythonPath rt) [JStr (scriptPath rt), text]]\<rparr>"
  have s0: "uncaught ?s0 = None" "responses ?s0 = []" "data ?s0 = []" "errorOutput ?s0 = []"
    by (simp_all add: init_state_def responses_def)
  let ?s = "deliver ask_event evs ?s0"
  have run: "data ?s = stdout_of evs" "errorOutput ?s = stderr_of evs" "responses ?s = []"
    "uncaught ?s = None"
    using ask_data_run [OF assms(3) s0(1)] s0 by simp_all
  have "ask_request rt req (DbRows rows) SpawnReturns (evs @ [ProcClose code])
          = ask_event (ProcClose code) ?s"
    using run(4) by (simp add: ask_request_def ask_handler_spawned [OF assms(1,2)] deliver_append)
  then show ?thesis
    using run by (simp add: responses_res_json responses_console_error)
qed

lemma audio_data_step:
  assumes "is_data e"
  shows "data (audio_event fp (Proc e) s) = data s @ stdout_chunk e"
    and "errorOutput (audio_event fp (Proc e) s) = errorOutput s @ stderr_chunk e"
    and "responses (audio_event fp (Proc e) s) = responses s"
    and "uncaught (audio_event fp (Proc e) s) = uncaught s"
  using assms by (cases e; simp add: step_simps)+

lemma audio_data_run:
  assumes "\<forall>e\<in>set evs. is_data e" and "uncaught s = None"
  shows "data (deliver (audio_event fp) (map Proc evs) s) = data s @ stdout_of evs
       \<and> errorOutput (deliver (audio_event fp) (map Proc evs) s) = errorOutput s @ stderr_of evs
       \<and> responses (deliver (audio_event fp) (map Proc evs) s) = responses s
       \<and> uncaught (deliver (audio_event fp) (map Proc evs) s) = None"
  using assms
proof (induction evs arbitrary: s)
  case Nil
  then show ?case by (simp add: stdout_of_def stderr_of_def)
next
  case (Cons e evs)
  then have d: "is_data e" and rest: "\<forall>x\<in>set evs. is_data x" by simp_all
  have u: "uncaught (audio_event fp (Proc e) s) = None"
    using Cons.prems(2) audio_data_step(4) [OF d] by simp
  show ?case
    using Cons.IH [OF rest u] Cons.prems(2) audio_data_step [OF d, of fp s]
    by (simp add: stdout_of_def stderr_of_def)
qed

lemma audio_handler_spawned:
  assumes "req_file req = Some f"
  shows "audio_handler rt req SpawnReturns =
           (init_state\<lparr>trace := [Spawn (pythonPath rt)
              [JStr (scriptPath rt), JStr (js ''--audio''), JStr (path_resolve rt (path f))]]\<rparr>,
            Some (path_resolve rt (path f)))"
  using assms by (simp add: audio_handler_def Let_def)

lemma audio_close_response:
  assumes "req_file req = Some f" and "\<forall>e\<in>set evs. is_data e"
  shows "responses (audio_request rt req SpawnReturns (map Proc evs @ [Proc (ProcClose code)])) =
     [if code = Some 0 \<and> stderr_of evs = []
      then \<lparr>status = 200, json = JObj [(js ''response'', JStr (trim (stdout_of evs)))]\<rparr>
      else \<lparr>status = 500,
            json = JObj [(js ''error'', JStr (js ''Python audio process failed'')),
                         (js ''code'', code_val code),
                         (js ''stderr'', JStr (trim (stderr_of evs)))]\<rparr>]"
proof -
  let ?fp = "path_resolve rt (path f)"
  let ?s0 = "init_state\<lparr>trace := [Spawn (pythonPath rt)
              [JStr (scriptPath rt), JStr (js ''--audio''), JStr ?fp]]\<rparr>"
  have s0: "uncaught ?s0 = None" "responses ?s0 = []" "data ?s0 = []" "errorOutput ?s0 = []"
    by (simp_all add: init_state_def responses_def)
  let ?s = "deliver (audio_event ?fp) (map Proc evs) ?s0"
  have run: "data ?s = stdout_of evs" "errorOutput ?s = stderr_of evs" "responses ?s = []"
    "uncaught ?s = None"
    using audio_data_run [OF assms(2) s0(1), of ?fp] s0 by simp_all
  have "audio_request rt req SpawnReturns (map Proc evs @ [Proc (ProcClose code)])
          = audio_event ?fp (Proc (ProcClose code)) ?s"
    using run(4) by (simp add: audio_request_def audio_handler_spawned [OF assms(1)] deliver_append)
  then show ?thesis
    using run by (simp add: Let_def step_simps)
qed

lemma ask_rejected:
  assumes "get_text rt (body req) = Inr text" and "no_text text"
  shows "ask_request rt req db sp evs =
     init_state\<lparr>trace :=
       [Send \<lparr>status = 400, json = JObj [(js ''error'', JStr (js ''No text provided''))]\<rparr>]\<rparr>"
  using assms
  by (simp add: ask_request_def ask_handler_def res_json_def headersSent_def init_state_def)

section \<open>POST /ask: the reply, and the requests turned away\<close>

text \<open>
  C1. A POST /ask whose \<open>text\<close> is a string that is not empty once trimmed: when the child
  that was spawned delivers only output chunks and then closes with exit code 0, with
  nothing accumulated from standard error, the handler answers with status 200 and the
  body \<open>{ reply: <the accumulated standard output, trimmed> }\<close>.
\<close>

theorem ask_success_reply:
  assumes "get_text rt (body req) = Inr (JStr t)" and "trim t \<noteq> []"
    and "\<forall>e\<in>set evs. is_data e" and "stderr_of evs = []"
  shows "responses (ask_request rt req (DbRows rows) SpawnReturns (evs @ [ProcClose (Some 0)])) =
           [\<lparr>status = 200, json = JObj [(js ''reply'', JStr (trim (stdout_of evs)))]\<rparr>]"
proof -
  have "\<not> no_text (JStr t)"
    using assms(2) by (simp only: no_text_JStr not_False_eq_True)
  from ask_close_response [OF assms(1) this assms(3), of rows "Some 0"] assms(4)
  show ?thesis by simp
qed

theorem ask_success_reply_witness:
  "responses (ask_request example_runtime example_ask (DbRows []) SpawnReturns
      [StdoutData (js '' Yes, 2 kg''), StdoutData (js '' of flour  ''), ProcClose (Some 0)]) =
     [\<lparr>status = 200, json = JObj [(js ''reply'', JStr (js ''Yes, 2 kg of flour''))]\<rparr>]"
  using ask_success_reply [of example_runtime example_ask "js ''is there flour left''"
      "[StdoutData (js '' Yes, 2 kg''), StdoutData (js '' of flour  '')]" "[]"]
  by (simp add: example_ask_def stdout_of_def stderr_of_def trim_def is_whitespace_def js_def)




text \<open>
  C10. A POST /ask whose \<open>text\<close> is not a string (a number, an array, an object, a
  boolean, \<open>null\<close>) is answered with status 400 and \<open>{error: "No text provided"}\<close>, by the
  same branch as a missing text, with no inventory query and no process spawned.
\<close>

theorem ask_non_string_rejected:
  assumes "get_text rt (body req) = Inr text" and "typeof text \<noteq> js ''string''"
  shows "trace (ask_request rt req db sp evs) =
           [Send \<lparr>status = 400, json = JObj [(js ''error'', JStr (js ''No text provided''))]\<rparr>]
       \<and> DbFind \<notin> set (trace (ask_request rt req db sp evs))
       \<and> spawns (ask_request rt req db sp evs) = []"
proof -
  have "no_text text"
    using assms(2) by (rule no_text_not_string)
  from ask_rejected [OF assms(1) this] show ?thesis
    by (simp add: spawns_def)
qed

theorem ask_non_string_rejected_witness:
  "trace (ask_request example_runtime
      \<lparr>body = JObj [(js ''text'', JArr [JStr (js ''flour'')])], req_file = None\<rparr>
      (DbRows []) SpawnReturns [ProcClose (Some 0)]) =
     [Send \<lparr>status = 400, json = JObj [(js ''error'', JStr (js ''No text provided''))]\<rparr>]"
  using ask_non_string_rejected [of example_runtime
      "\<lparr>body = JObj [(js ''text'', JArr [JStr (js ''flour'')])], req_file = None\<rparr>"
      "JArr [JStr (js ''flour'')]" "DbRows []" SpawnReturns "[ProcClose (Some 0)]"]
  by (simp add: js_def)

section \<open>The close listener of both routes\<close>

text \<open>
  C3. On both routes, when the spawned child delivers output chunks and then closes, the
  response is decided by the exit code and the accumulated standard error alone: a code
  other than 0, or any accumulated standard error even with code 0, gives status 500 with
  a body holding that code and the trimmed standard error; the success response is sent
  only when the code is 0 and nothing was accumulated from standard error.
\<close>

theorem close_strict_failure:
  assumes "get_text rt (body req) = Inr (JStr t)" and "trim t \<noteq> []"
    and "req_file areq = Some f"
    and "\<forall>e\<in>set evs. is_data e"
  shows "responses (ask_request rt req (DbRows rows) SpawnReturns (evs @ [ProcClose code])) =
     [if code \<noteq> Some 0 \<or> stderr_of evs \<noteq> []
      then \<lparr>status = 500,
            json = JObj [(js ''error'', JStr (js ''Python process failed'')),
                         (js ''code'', code_val code),
                         (js ''stderr'', JStr (trim (stderr_of evs)))]\<rparr>
      else \<lparr>status = 200, json = JObj [(js ''reply'', JStr (trim (stdout_of evs)))]\<rparr>]
   \<and> responses (audio_request rt areq SpawnReturns (map Proc evs @ [Proc (ProcClose code)])) =
     [if code \<noteq> Some 0 \<or> stderr_of evs \<noteq> []
      then \<lparr>status = 500,
            json = JObj [(js ''error'', JStr (js ''Python audio process failed'')),
                         (js ''code'', code_val code),
                         (js ''stderr'', JStr (trim (stderr_of evs)))]\<rparr>
      else \<lparr>status = 200, json = JObj [(js ''response'', JStr (trim (stdout_of evs)))]\<rparr>]"
proof -
  have nt: "\<not> no_text (JStr t)"
    using assms(2) by (simp only: no_text_JStr not_False_eq_True)
  show ?thesis
    using ask_close_response [OF assms(1) nt assms(4), of rows code]
      audio_close_response [OF assms(3,4), of rt code]
    by simp
qed

theorem close_strict_failure_witness:
  "responses (ask_request example_runtime example_ask (DbRows []) SpawnReturns
      [StdoutData (js ''ok''), StderrData (js ''DeprecationWarning ''), ProcClose (Some 0)]) =
     [\<lparr>status = 500,
       json = JObj [(js ''error'', JStr (js ''Python process failed'')),
                    (js ''code'', JNum 0),
                    (js ''stderr'', JStr (js ''DeprecationWarning''))]\<rparr>]
   \<and> responses (audio_request example_runtime example_audio SpawnReturns
      [Proc (StdoutData (js ''ok'')), Proc (StderrData (js ''DeprecationWarning '')),
       Proc (ProcClose (Some 0))]) =
     [\<lparr>status = 500,
       json = JObj [(js ''error'', JStr (js ''Python audio process failed'')),
                    (js ''code'', JNum 0),
                    (js ''stderr'', JStr (js ''DeprecationWarning''))]\<rparr>]"
  using close_strict_failure [of example_runtime example_ask "js ''is there flour left''"
      example_audio "\<lparr>path = js ''uploads/3f9a''\<rparr>"
      "[StdoutData (js ''ok''), StderrData (js ''DeprecationWarning '')]" "[]" "Some 0"]
  by (simp add: example_ask_def example_audio_def stdout_of_def stderr_of_def trim_def
      is_whitespace_def js_def)

section \<open>At most one response\<close>

lemma ask_event_le1:
  "length (responses s) \<le> 1 \<Longrightarrow> length (responses (ask_event e s)) \<le> 1"
  by (cases e) (simp_all add: step_simps)

lemma audio_event_le1:
  "length (responses s) \<le> 1 \<Longrightarrow> length (responses (audio_event fp e s)) \<le> 1"
proof (cases e)
  case (Proc pe)
  assume "length (responses s) \<le> 1"
  then show ?thesis using Proc
    by (cases pe) (simp_all add: Let_def step_simps)
next
  case (UnlinkDone err)
  assume "length (responses s) \<le> 1"
  then show ?thesis using UnlinkDone
    by (cases err) (simp_all add: Let_def step_simps)
qed

lemma deliver_le1:
  assumes "\<And>e s. length (responses s) \<le> 1 \<Longrightarrow> length (responses (h e s)) \<le> 1"
    and "length (responses s) \<le> 1"
  shows "length (responses (deliver h evs s)) \<le> 1"
  using assms(2)
proof (induction evs arbitrary: s)
  case Nil
  then show ?case by simp
next
  case (Cons e evs)
  show ?case
  proof (cases "uncaught s = None")
    case True
    then show ?thesis
      using Cons.IH [OF assms(1) [OF Cons.prems]] by simp
  next
    case False
    then show ?thesis using Cons.prems by simp
  qed
qed

lemma ask_handler_le1: "length (responses (fst (ask_handler rt req db sp))) \<le> 1"
  by (simp add: ask_handler_def ask_catch_def fetchInventoryFromDB_def step_simps Let_def
      split: sum.splits db_result.splits spawn_result.splits)
    (simp add: responses_def init_state_def)

lemma audio_handler_le1: "length (responses (fst (audio_handler rt req sp))) \<le> 1"
  by (simp add: audio_handler_def audio_catch_def step_simps Let_def
      split: option.splits spawn_result.splits)
    (simp add: responses_def init_state_def)

text \<open>
  What the second call of \<open>res.json\<close> does when the error listener and then the close
  listener run for one child: the response of the error listener stays the only one, and
  the call in the close listener ends in an uncaught ERR_HTTP_HEADERS_SENT.
\<close>

lemma ask_error_then_close:
  assumes "get_text rt (body req) = Inr text" and "\<not> no_text text"
  shows "responses (ask_request rt req (DbRows rows) SpawnReturns [ProcError msg, ProcClose code]) =
           [\<lparr>status = 500,
             json = JObj [(js ''error'', JStr (js ''Failed to start Python process'')),
                          (js ''details'', JStr msg)]\<rparr>]
       \<and> uncaught (ask_request rt req (DbRows rows) SpawnReturns [ProcError msg, ProcClose code]) =
           Some (js ''ERR_HTTP_HEADERS_SENT'')"
  by (simp add: ask_request_def ask_handler_spawned [OF assms] step_simps)
     (simp add: responses_def init_state_def)

text \<open>
  C9. On both routes a request gets at most one response, whatever events arrive and in
  whatever order, also when the error listener and the close listener both run.
\<close>

theorem at_most_one_response:
  "length (responses (ask_request rt req db sp evs)) \<le> 1 \<and>
   length (responses (audio_request rt areq asp aevs)) \<le> 1"
proof
  show "length (responses (ask_request rt req db sp evs)) \<le> 1"
    using ask_handler_le1 [of rt req db sp]
    using deliver_le1 [of ask_event, OF ask_event_le1]
    by (cases "ask_handler rt req db sp") (simp add: ask_request_def)
  show "length (responses (audio_request rt areq asp aevs)) \<le> 1"
    using audio_handler_le1 [of rt areq asp]
    using deliver_le1 [of "audio_event fp" for fp, OF audio_event_le1]
    by (cases "audio_handler rt areq asp") (simp add: audio_request_def split: option.splits)
qed

theorem at_most_one_response_witness:
  "length (responses (ask_request example_runtime example_ask (DbRows []) SpawnReturns
      [ProcError (js ''spawn python.exe ENOENT''), ProcClose (Some (- 2))])) \<le> 1 \<and>
   length (responses (audio_request example_runtime example_audio SpawnReturns
      [Proc (ProcClose (Some 1)), Proc (ProcError (js ''kill EPERM'')), UnlinkDone None])) \<le> 1"
  by (rule at_most_one_response)

section \<open>POST /audio: the temporary file\<close>















section \<open>The inventory\<close>

lemma ask_handler_rows:
  "ask_handler rt req (DbRows rows1) sp = ask_handler rt req (DbRows rows2) sp"
  by (simp add: ask_handler_def fetchInventoryFromDB_def Let_def split: sum.splits)

lemma spawns_ask_event: "spawns (ask_event e s) = spawns s"
  by (cases e) (simp_all add: res_json_def console_error_def spawns_def)

lemma spawns_deliver_ask: "spawns (deliver ask_event evs s) = spawns s"
  by (induction evs arbitrary: s) (simp_all add: spawns_ask_event)

text \<open>
  C8. On /ask the inventory that was fetched is not handed to the child. Two runs with the
  same request and the same behaviour of the child, on two different sets of fetched
  records, end in the same state: the same spawn arguments, the same responses. When the
  text is accepted the one process spawned has the arguments \<open>[scriptPath, text]\<close>.
\<close>

theorem ask_inventory_not_passed:
  "ask_request rt req (DbRows rows1) sp evs = ask_request rt req (DbRows rows2) sp evs
   \<and> (get_text rt (body req) = Inr text \<and> \<not> no_text text \<longrightarrow>
        spawns (ask_request rt req (DbRows rows1) SpawnReturns evs)
          = [(pythonPath rt, [JStr (scriptPath rt), text])])"
proof
  show "ask_request rt req (DbRows rows1) sp evs = ask_request rt req (DbRows rows2) sp evs"
    by (simp add: ask_request_def ask_handler_rows [of rt req rows1 sp rows2])
  show "get_text rt (body req) = Inr text \<and> \<not> no_text text \<longrightarrow>
        spawns (ask_request rt req (DbRows rows1) SpawnReturns evs)
          = [(pythonPath rt, [JStr (scriptPath rt), text])]"
  proof
    assume a: "get_text rt (body req) = Inr text \<and> \<not> no_text text"
    then have h: "ask_handler rt req (DbRows rows1) SpawnReturns =
        (init_state\<lparr>trace := [DbFind, Spawn (pythonPath rt) [JStr (scriptPath rt), text]]\<rparr>, True)"
      using ask_handler_spawned [of rt req "text" rows1] by simp
    show "spawns (ask_request rt req (DbRows rows1) SpawnReturns evs)
            = [(pythonPath rt, [JStr (scriptPath rt), text])]"
      by (simp add: ask_request_def h spawns_deliver_ask) (simp add: spawns_def)
  qed
qed

theorem ask_inventory_not_passed_witness:
  "ask_request example_runtime example_ask (DbRows []) SpawnReturns
      [StdoutData (js ''none left''), ProcClose (Some 0)]
   = ask_request example_runtime example_ask
      (DbRows [\<lparr>name = js ''Flour'', currentStock = JNum 5\<rparr>]) SpawnReturns
      [StdoutData (js ''none left''), ProcClose (Some 0)]
   \<and> spawns (ask_request example_runtime example_ask (DbRows []) SpawnReturns
      [StdoutData (js ''none left''), ProcClose (Some 0)])
      = [(pythonPath example_runtime,
          [JStr (scriptPath example_runtime), JStr (js ''is there flour left'')])]"
proof -
  have t: "get_text example_runtime (body example_ask) = Inr (JStr (js ''is there flour left''))"
    by (simp add: example_ask_def)
  have n: "\<not> no_text (JStr (js ''is there flour left''))"
    by (simp add: trim_def is_whitespace_def js_def)
  show ?thesis
    using ask_inventory_not_passed [of example_runtime example_ask "[]" SpawnReturns
        "[StdoutData (js ''none left''), ProcClose (Some 0)]"
        "[\<lparr>name = js ''Flour'', currentStock = JNum 5\<rparr>]" "JStr (js ''is there flour left'')"]
      t n
    by blast
qed

lemma find_snoc:
  "List.find P (xs @ [x]) =
     (case List.find P xs of Some y \<Rightarrow> Some y | None \<Rightarrow> if P x then Some x else None)"
  by (induction xs) simp_all

lemma forEach_item_lookup:
  "forEach_item rt obj rows k =
     (if k = js ''__proto__'' then obj k
      else case List.find (\<lambda>r. toLowerCase rt (name r) = k) (rev rows) of
             Some r \<Rightarrow> Some (nullish_coalesce (currentStock r) (JNum 0))
           | None \<Rightarrow> obj k)"
proof (induction rows arbitrary: obj)
  case Nil
  then show ?case by simp
next
  case (Cons item items)
  show ?case
    by (simp add: Cons.IH find_snoc obj_set_def split: option.splits)
qed

lemma find_distinct:
  "distinct (map f xs) \<Longrightarrow> r \<in> set xs \<Longrightarrow> List.find (\<lambda>x. f x = f r) xs = Some r"
  by (induction xs) auto

text \<open>
  On records whose lower-cased names are pairwise different, every record whose key is
  not \<open>__proto__\<close> has its entry, with its own stock or 0.
\<close>

lemma forEach_item_distinct_names:
  assumes "distinct (map (\<lambda>r. toLowerCase rt (name r)) rows)" and "r \<in> set rows"
    and "toLowerCase rt (name r) \<noteq> js ''__proto__''"
  shows "forEach_item rt Map.empty rows (toLowerCase rt (name r))
           = Some (nullish_coalesce (currentStock r) (JNum 0))"
proof -
  have d: "distinct (map (\<lambda>r. toLowerCase rt (name r)) (rev rows))"
    using assms(1) by (simp add: rev_map [symmetric])
  have "List.find (\<lambda>x. toLowerCase rt (name x) = toLowerCase rt (name r)) (rev rows) = Some r"
    using find_distinct [OF d, of r] assms(2) by simp
  then show ?thesis
    using assms(3) by (simp add: forEach_item_lookup)
qed

lemma forEach_item_flour_sugar:
  assumes "toLowerCase rt (js ''Flour'') = js ''flour''"
    and "toLowerCase rt (js ''Sugar'') = js ''sugar''"
  shows "forEach_item rt Map.empty
          [\<lparr>name = js ''Flour'', currentStock = JNum 5\<rparr>,
           \<lparr>name = js ''Sugar'', currentStock = JNull\<rparr>]
        = [js ''flour'' \<mapsto> JNum 5, js ''sugar'' \<mapsto> JNum 0]"
proof -
  have p: "js ''flour'' \<noteq> js ''__proto__''" "js ''sugar'' \<noteq> js ''__proto__''"
    by (simp_all add: js_def)
  show ?thesis
    by (simp add: assms p obj_set_def nullish_coalesce_def)
qed

text \<open>
  C4. fetchInventoryFromDB is to give every fetched record an entry at its lower-cased
  name. For a record named \<open>__proto__\<close> it gives none: of the one record \<open>__proto__\<close> with
  stock 5 the map that comes back is empty.
\<close>

theorem fetchInventoryFromDB_proto_name:
  "fetchInventoryFromDB example_runtime
      (DbRows [\<lparr>name = js ''__proto__'', currentStock = JNum 5\<rparr>]) = Inr Map.empty"
  by (simp add: fetchInventoryFromDB_def obj_set_def example_runtime_def ascii_lower_def js_def)

end
